theory Spec2Isabelle
  imports Main
begin

section \<open>The AndOr web application: routes of \<^verbatim>\<open>app/routes.py\<close>\<close>

text \<open>
  The module \<^verbatim>\<open>app/routes.py\<close> holds the user loader and the request handlers
  \<^verbatim>\<open>people\<close>, \<^verbatim>\<open>login\<close> and \<^verbatim>\<open>logout\<close>. Each handler is embedded as a function
  from the application state before the request to the response and the state after it.
  What the handlers import (the configuration, the forms, the model classes, the
  dataset library and the login library) is kept apart from them: either as a field of
  the environment record \<open>env\<close> that every handler takes, or as a small definition
  marked as such.
\<close>

subsection \<open>Data\<close>

text \<open>
  An instance of the class \<^verbatim>\<open>User\<close>: the attributes that the routes read, and the
  stored hash that \<^verbatim>\<open>check_password\<close> compares with.
\<close>

record User =
  username :: string
  display_name :: string
  c_name :: string
  is_authenticated :: bool
  is_active :: bool
  is_anonymous :: bool
  password_hash :: string

text \<open>
  The value of \<^verbatim>\<open>current_user\<close>: the anonymous user of the login library (which is
  not authenticated) or an instance of \<^verbatim>\<open>User\<close>.
\<close>

datatype current_user = AnonymousUser | LoggedIn User

fun cu_is_authenticated :: "current_user \<Rightarrow> bool" where
  "cu_is_authenticated AnonymousUser = False"
| "cu_is_authenticated (LoggedIn u) = is_authenticated u"

text \<open>
  An instance of \<^verbatim>\<open>People\<close> with the twenty attributes that \<^verbatim>\<open>people\<close> assigns. The
  key is a string; the type \<open>'v\<close> of the other values is whatever the form fields
  deliver. The attributes \<^verbatim>\<open>image\<close> and \<^verbatim>\<open>notes\<close> are written \<open>image_p\<close> and
  \<open>notes_p\<close>.
\<close>

record 'v People =
  cl_people_id :: string
  family_name :: 'v
  given_name :: 'v
  thesis_id :: 'v
  authors_id :: 'v
  archivesspace_id :: 'v
  directory_id :: 'v
  viaf :: 'v
  lcnaf :: 'v
  isni :: 'v
  wikidata :: 'v
  snac :: 'v
  orcid :: 'v
  image_p :: 'v
  educated_at :: 'v
  caltech :: 'v
  jpl :: 'v
  faculty :: 'v
  alumn :: 'v
  notes_p :: 'v

text \<open>
  A \<^verbatim>\<open>PeopleForm\<close> as the handler sees it: the verdict of \<^verbatim>\<open>validate_on_submit()\<close>
  and the \<^verbatim>\<open>.data\<close> of each field. The form classes are not part of the module; the
  verdict is therefore an input of the handler.
\<close>

record 'v PeopleForm =
  people_validate_on_submit :: bool
  cl_people_id_data :: string
  family_name_data :: 'v
  given_name_data :: 'v
  thesis_id_data :: 'v
  authors_id_data :: 'v
  archivesspace_id_data :: 'v
  directory_id_data :: 'v
  viaf_data :: 'v
  lcnaf_data :: 'v
  isni_data :: 'v
  wikidata_data :: 'v
  snac_data :: 'v
  orcid_data :: 'v
  image_data :: 'v
  educated_at_data :: 'v
  caltech_data :: 'v
  jpl_data :: 'v
  faculty_data :: 'v
  alumn_data :: 'v
  notes_data :: 'v

record LoginForm =
  login_validate_on_submit :: bool
  username_data :: string
  password_data :: string
  remember_me_data :: bool

text \<open>
  A response: \<^verbatim>\<open>render_template(template, title=..., user=..., form=...)\<close>,
  \<^verbatim>\<open>redirect(url_for(endpoint))\<close> or \<^verbatim>\<open>abort(code)\<close>.
\<close>

datatype 'v form_arg = People_form "'v PeopleForm" | Login_form LoginForm

datatype 'v response =
    Render_template string string current_user "'v form_arg"
  | Redirect string
  | Abort nat

text \<open>
  A call of the dataset library made by the routes: \<^verbatim>\<open>has_key(c_name, key)\<close>,
  \<^verbatim>\<open>create(c_name, key, obj)\<close> or \<^verbatim>\<open>update(c_name, key, obj)\<close>.
\<close>

datatype 'd call =
    Has_key string string
  | Create string string 'd
  | Update string string 'd

text \<open>
  The state a request runs in: the store behind the dataset library, the session
  (\<^verbatim>\<open>current_user\<close> and the remember flag), the flashed messages, the standard output,
  and the dataset calls made so far (oldest first).
\<close>

record ('s, 'd) world =
  store :: 's
  session_user :: current_user
  session_remember :: bool
  flashes :: "string list"
  stdout :: "string list"
  calls :: "'d call list"

text \<open>
  What the module imports and does not define. \<open>USERS\<close> and \<open>OBJECTS\<close> are the
  collection names of \<^verbatim>\<open>cfg\<close>. The three dataset operations act on the store;
  \<^verbatim>\<open>create\<close> and \<^verbatim>\<open>update\<close> return an error string, empty on success. \<open>to_dict\<close>
  and \<open>People_str\<close> are \<^verbatim>\<open>People.to_dict\<close> and the text of a \<^verbatim>\<open>People\<close> in an
  f-string. \<open>User_init\<close> is the constructor \<^verbatim>\<open>User(username)\<close>, which reads the
  store; \<open>check_password\<close> returns its verdict and the instance as the method leaves
  it; \<open>current_user_str\<close> is the text of \<^verbatim>\<open>current_user\<close> in an f-string.
\<close>

record ('s, 'v, 'd) env =
  USERS :: string
  OBJECTS :: string
  dataset_has_key :: "'s \<Rightarrow> string \<Rightarrow> string \<Rightarrow> bool"
  dataset_create :: "'s \<Rightarrow> string \<Rightarrow> string \<Rightarrow> 'd \<Rightarrow> string \<times> 's"
  dataset_update :: "'s \<Rightarrow> string \<Rightarrow> string \<Rightarrow> 'd \<Rightarrow> string \<times> 's"
  to_dict :: "'v People \<Rightarrow> 'd"
  People_str :: "'v People \<Rightarrow> string"
  User_init :: "'s \<Rightarrow> string \<Rightarrow> User"
  check_password :: "User \<Rightarrow> string \<Rightarrow> bool \<times> User"
  current_user_str :: "current_user \<Rightarrow> string"

subsection \<open>Effects\<close>

definition flash :: "string \<Rightarrow> ('s, 'd) world \<Rightarrow> ('s, 'd) world" where
  "flash msg w = w\<lparr>flashes := flashes w @ [msg]\<rparr>"

definition print :: "string \<Rightarrow> ('s, 'd) world \<Rightarrow> ('s, 'd) world" where
  "print line w = w\<lparr>stdout := stdout w @ [line]\<rparr>"

definition has_key ::
  "('s, 'v, 'd) env \<Rightarrow> string \<Rightarrow> string \<Rightarrow> ('s, 'd) world \<Rightarrow> bool \<times> ('s, 'd) world" where
  "has_key e c k w =
     (dataset_has_key e (store w) c k, w\<lparr>calls := calls w @ [Has_key c k]\<rparr>)"

definition create ::
  "('s, 'v, 'd) env \<Rightarrow> string \<Rightarrow> string \<Rightarrow> 'd \<Rightarrow> ('s, 'd) world \<Rightarrow> string \<times> ('s, 'd) world" where
  "create e c k obj w =
     (case dataset_create e (store w) c k obj of
        (err, s) \<Rightarrow> (err, w\<lparr>store := s, calls := calls w @ [Create c k obj]\<rparr>))"

definition update ::
  "('s, 'v, 'd) env \<Rightarrow> string \<Rightarrow> string \<Rightarrow> 'd \<Rightarrow> ('s, 'd) world \<Rightarrow> string \<times> ('s, 'd) world" where
  "update e c k obj w =
     (case dataset_update e (store w) c k obj of
        (err, s) \<Rightarrow> (err, w\<lparr>store := s, calls := calls w @ [Update c k obj]\<rparr>))"

text \<open>The text of a Boolean in an f-string.\<close>

definition str_bool :: "bool \<Rightarrow> string" where
  "str_bool b = (if b then ''True'' else ''False'')"

text \<open>
  \<^verbatim>\<open>login_user(user, remember, fresh)\<close> and \<^verbatim>\<open>logout_user()\<close> of the login library:
  the first binds the user to the session unless the user is inactive, the second
  clears the session.
\<close>

definition login_user :: "User \<Rightarrow> bool \<Rightarrow> ('s, 'd) world \<Rightarrow> ('s, 'd) world" where
  "login_user u remember w =
     (if is_active u then w\<lparr>session_user := LoggedIn u, session_remember := remember\<rparr>
      else w)"

definition logout_user :: "('s, 'd) world \<Rightarrow> ('s, 'd) world" where
  "logout_user w = w\<lparr>session_user := AnonymousUser, session_remember := False\<rparr>"

subsection \<open>The user loader\<close>

definition load_user ::
  "('s, 'v, 'd) env \<Rightarrow> string \<Rightarrow> ('s, 'd) world \<Rightarrow> User option \<times> ('s, 'd) world" where
  "load_user e user_id w =
     (let c_name = USERS e in
      case has_key e c_name user_id w of (found, w1) \<Rightarrow>
        if found = False then
          (None,
           flash (''DEBUG load_user('' @ user_id @ ''), failed, '' @ user_id
                  @ '' not in '' @ c_name) w1)
        else
          let u = User_init e (store w1) user_id in
          (Some u,
           flash (''DEBUG load_user('' @ user_id @ '') -> '' @ username u @ '' ''
                  @ display_name u
                  @ '' is_authenticated: '' @ str_bool (is_authenticated u)
                  @ '', is_active: '' @ str_bool (is_active u)
                  @ '', is_anonymous: '' @ str_bool (is_anonymous u)) w1))"

text \<open>
  How the login library uses the loader when a request starts: a session without a
  user id is anonymous; otherwise the loader is asked, and its answer \<^verbatim>\<open>None\<close> makes
  the session anonymous.
\<close>

definition restore_session ::
  "('s, 'v, 'd) env \<Rightarrow> string option \<Rightarrow> ('s, 'd) world \<Rightarrow> ('s, 'd) world" where
  "restore_session e sid w =
     (case sid of
        None \<Rightarrow> w\<lparr>session_user := AnonymousUser\<rparr>
      | Some user_id \<Rightarrow>
          (case load_user e user_id w of
             (None, w1) \<Rightarrow> w1\<lparr>session_user := AnonymousUser\<rparr>
           | (Some u, w1) \<Rightarrow> w1\<lparr>session_user := LoggedIn u\<rparr>))"

subsection \<open>The handler of \<^verbatim>\<open>/people\<close>\<close>

text \<open>Lines 46 to 66: a new \<^verbatim>\<open>People\<close> takes every attribute from the form.\<close>

definition people_of_form :: "'v PeopleForm \<Rightarrow> 'v People" where
  "people_of_form form =
     \<lparr> cl_people_id = cl_people_id_data form,
       family_name = family_name_data form,
       given_name = given_name_data form,
       thesis_id = thesis_id_data form,
       authors_id = authors_id_data form,
       archivesspace_id = archivesspace_id_data form,
       directory_id = directory_id_data form,
       viaf = viaf_data form,
       lcnaf = lcnaf_data form,
       isni = isni_data form,
       wikidata = wikidata_data form,
       snac = snac_data form,
       orcid = orcid_data form,
       image_p = image_data form,
       educated_at = educated_at_data form,
       caltech = caltech_data form,
       jpl = jpl_data form,
       faculty = faculty_data form,
       alumn = alumn_data form,
       notes_p = notes_data form \<rparr>"

definition people ::
  "('s, 'v, 'd) env \<Rightarrow> 'v PeopleForm \<Rightarrow> ('s, 'd) world \<Rightarrow> 'v response \<times> ('s, 'd) world" where
  "people e form w =
     (if cu_is_authenticated (session_user w) = False then
        (Redirect ''login'', flash ''Must be logged in to curate objects'' w)
      else
        let w' =
          (if people_validate_on_submit form then
             let people = people_of_form form;
                 c_name = OBJECTS e;
                 key = cl_people_id people
             in case has_key e c_name key w of (found, w1) \<Rightarrow>
               if found then
                 (case update e c_name key (to_dict e people) w1 of (err, w2) \<Rightarrow>
                    if err \<noteq> '''' then
                      flash ''WARNING: failed to update {key} in {c_name}, {err}'' w2
                    else
                      flash ''{people.cl_people_id} updated'' w2)
               else
                 (let w2 = print (''DEBUG c_name '' @ c_name @ '', '' @ key @ '' -> ''
                                  @ People_str e people) w1
                  in case create e c_name key (to_dict e people) w2 of (err, w3) \<Rightarrow>
                    if err \<noteq> '''' then
                      flash ''WARNING: failed to create {key} in {c_name}, {err}'' w3
                    else
                      flash ''{people.cl_people_id} created'' w3)
           else w)
        in (Render_template ''people.html'' ''People'' (session_user w') (People_form form),
            w'))"

subsection \<open>The handlers of \<^verbatim>\<open>/login\<close> and \<^verbatim>\<open>/logout\<close>\<close>

text \<open>
  The name of the current user is read only where \<^verbatim>\<open>current_user\<close> is authenticated,
  which the anonymous user never is.
\<close>

fun cu_username :: "current_user \<Rightarrow> string" where
  "cu_username (LoggedIn u) = username u"
| "cu_username AnonymousUser = []"

definition login ::
  "('s, 'v, 'd) env \<Rightarrow> LoginForm \<Rightarrow> ('s, 'd) world \<Rightarrow> 'v response \<times> ('s, 'd) world" where
  "login e form w =
     (if cu_is_authenticated (session_user w) then
        (Redirect ''index'',
         flash (''DEBUG current user is '' @ cu_username (session_user w)
                @ '', redirecting'') w)
      else if login_validate_on_submit form then
        let username' = username_data form;
            password = password_data form;
            remember_me = remember_me_data form
        in case check_password e (User_init e (store w) username') password of
          (ok, u) \<Rightarrow>
            if ok = False then
              (Abort 401,
               flash ''Invalid username or password''
                 (flash (''DEBUG '' @ username u @ '' or password not found in ''
                         @ c_name u) w))
            else
              let w1 = login_user u remember_me w;
                  w2 = flash (''DEBUG '' @ current_user_str e (session_user w1)
                              @ '' -> current_user.is_authenticated ''
                              @ str_bool (cu_is_authenticated (session_user w1))) w1;
                  w3 = flash (''DEBUG current user is successfully logged in, ''
                              @ username u) w2;
                  w4 = flash ''DEBUG redirecting to /'' w3;
                  w5 = flash ''Logged in successfully.'' w4
              in (Redirect ''index'', w5)
      else
        (Render_template ''login.html'' ''Sign in'' (session_user w) (Login_form form), w))"

definition logout :: "('s, 'd) world \<Rightarrow> 'v response \<times> ('s, 'd) world" where
  "logout w = (Redirect ''index'', logout_user w)"

subsection \<open>A reference environment\<close>

text \<open>
  The handlers are stated over any environment. The examples below run them in one
  concrete environment: an in-memory store that behaves like the dataset library as
  far as the examples go. A collection is a map from keys to objects. \<^verbatim>\<open>create\<close>
  trims the key, refuses an empty key (\<^verbatim>\<open>must not be empty\<close>) and a key that exists,
  and otherwise stores the object under the trimmed key; \<^verbatim>\<open>update\<close> refuses a key
  that does not exist and otherwise replaces the object; both refuse a collection that
  does not exist.
\<close>

type_synonym 'd mem = "string \<rightharpoonup> (string \<rightharpoonup> 'd)"

definition is_space :: "char \<Rightarrow> bool" where
  "is_space ch = (ch \<in> set [CHR '' '', CHR 0x09, CHR 0x0A, CHR 0x0B, CHR 0x0C, CHR 0x0D])"

definition trim_space :: "string \<Rightarrow> string" where
  "trim_space k = rev (dropWhile is_space (rev (dropWhile is_space k)))"

definition mem_has_key :: "'d mem \<Rightarrow> string \<Rightarrow> string \<Rightarrow> bool" where
  "mem_has_key s c k = (case s c of None \<Rightarrow> False | Some col \<Rightarrow> col k \<noteq> None)"

definition mem_create :: "'d mem \<Rightarrow> string \<Rightarrow> string \<Rightarrow> 'd \<Rightarrow> string \<times> 'd mem" where
  "mem_create s c k obj =
     (let key = trim_space k in
      case s c of
        None \<Rightarrow> (''collection not found'', s)
      | Some col \<Rightarrow>
          if key = '''' then (''must not be empty'', s)
          else if col key \<noteq> None then (''key already exists'', s)
          else ('''', s(c \<mapsto> col(key \<mapsto> obj))))"

definition mem_update :: "'d mem \<Rightarrow> string \<Rightarrow> string \<Rightarrow> 'd \<Rightarrow> string \<times> 'd mem" where
  "mem_update s c k obj =
     (case s c of
        None \<Rightarrow> (''collection not found'', s)
      | Some col \<Rightarrow>
          if col k = None then (''key not found'', s)
          else ('''', s(c \<mapsto> col(k \<mapsto> obj))))"

text \<open>
  Modelled from the spec: \<^verbatim>\<open>People.to_dict\<close> of \<^verbatim>\<open>app/models.py\<close>, which is not among
  the sources. The spec has a full record written, every submitted field mapped one to
  one: the dictionary holds each of the twenty attributes under its name.
\<close>

definition to_dict_all :: "string People \<Rightarrow> (string \<times> string) list" where
  "to_dict_all p =
     [(''cl_people_id'', cl_people_id p),
      (''family_name'', family_name p),
      (''given_name'', given_name p),
      (''thesis_id'', thesis_id p),
      (''authors_id'', authors_id p),
      (''archivesspace_id'', archivesspace_id p),
      (''directory_id'', directory_id p),
      (''viaf'', viaf p),
      (''lcnaf'', lcnaf p),
      (''isni'', isni p),
      (''wikidata'', wikidata p),
      (''snac'', snac p),
      (''orcid'', orcid p),
      (''image'', image_p p),
      (''educated_at'', educated_at p),
      (''caltech'', caltech p),
      (''jpl'', jpl p),
      (''faculty'', faculty p),
      (''alumn'', alumn p),
      (''notes'', notes_p p)]"

definition field :: "(string \<times> string) list \<Rightarrow> string \<Rightarrow> string" where
  "field d name = (case map_of d name of None \<Rightarrow> '''' | Some v \<Rightarrow> v)"

text \<open>
  Modelled from the spec: the class \<^verbatim>\<open>User\<close> of \<^verbatim>\<open>app/models.py\<close>, which is not among
  the sources. A loaded identity is not yet authenticated, is active and is not
  anonymous; \<^verbatim>\<open>check_password\<close> compares the candidate with the stored hash and
  returns the Boolean result. That a match marks the identity as authenticated is an
  assumption of this instance (the session is authenticated after a successful login),
  and \<open>mem_hash\<close> stands for the hash function.
\<close>

definition mem_User :: "string \<Rightarrow> (string \<times> string) list mem \<Rightarrow> string \<Rightarrow> User" where
  "mem_User users s name =
     (let d = (case s users of
                 None \<Rightarrow> []
               | Some col \<Rightarrow> (case col name of None \<Rightarrow> [] | Some d \<Rightarrow> d)) in
      \<lparr> username = name,
        display_name = field d ''display_name'',
        c_name = users,
        is_authenticated = False,
        is_active = True,
        is_anonymous = False,
        password_hash = field d ''password_hash'' \<rparr>)"

definition mem_hash :: "string \<Rightarrow> string" where
  "mem_hash password = ''#'' @ rev password"

definition mem_check_password :: "User \<Rightarrow> string \<Rightarrow> bool \<times> User" where
  "mem_check_password u candidate =
     (let ok = (password_hash u = mem_hash candidate) in (ok, u\<lparr>is_authenticated := ok\<rparr>))"

definition mem_env :: "((string \<times> string) list mem, string, (string \<times> string) list) env" where
  "mem_env =
     \<lparr> USERS = ''Users.ds'',
       OBJECTS = ''People.ds'',
       dataset_has_key = mem_has_key,
       dataset_create = mem_create,
       dataset_update = mem_update,
       to_dict = to_dict_all,
       People_str = cl_people_id,
       User_init = mem_User ''Users.ds'',
       check_password = mem_check_password,
       current_user_str = cu_username \<rparr>"

text \<open>
  The inputs of the examples: a store with one user and an empty collection of people,
  an anonymous and an authenticated state over it, a state whose store has no
  collection at all, and the forms that are submitted.
\<close>

definition store0 :: "(string \<times> string) list mem" where
  "store0 =
     [''Users.ds'' \<mapsto>
        [''jane'' \<mapsto> [(''display_name'', ''Jane Doe''), (''password_hash'', mem_hash ''moon'')]],
      ''People.ds'' \<mapsto> Map.empty]"

definition anonymous0 :: "((string \<times> string) list mem, (string \<times> string) list) world" where
  "anonymous0 =
     \<lparr> store = store0, session_user = AnonymousUser, session_remember = False,
       flashes = [], stdout = [], calls = [] \<rparr>"

definition jane :: User where
  "jane = (mem_User ''Users.ds'' store0 ''jane'')\<lparr>is_authenticated := True\<rparr>"

definition curator0 :: "((string \<times> string) list mem, (string \<times> string) list) world" where
  "curator0 = anonymous0\<lparr>session_user := LoggedIn jane\<rparr>"

definition no_collection0 :: "((string \<times> string) list mem, (string \<times> string) list) world" where
  "no_collection0 = curator0\<lparr>store := Map.empty\<rparr>"

definition blank_form :: "string PeopleForm" where
  "blank_form =
     \<lparr> people_validate_on_submit = False,
       cl_people_id_data = '''', family_name_data = '''', given_name_data = '''',
       thesis_id_data = '''', authors_id_data = '''', archivesspace_id_data = '''',
       directory_id_data = '''', viaf_data = '''', lcnaf_data = '''', isni_data = '''',
       wikidata_data = '''', snac_data = '''', orcid_data = '''', image_data = '''',
       educated_at_data = '''', caltech_data = '''', jpl_data = '''', faculty_data = '''',
       alumn_data = '''', notes_data = '''' \<rparr>"

definition smith1 :: "string PeopleForm" where
  "smith1 = blank_form\<lparr>people_validate_on_submit := True, cl_people_id_data := ''smith-j'',
              family_name_data := ''Smith'', given_name_data := ''Jane''\<rparr>"

definition smith2 :: "string PeopleForm" where
  "smith2 = blank_form\<lparr>people_validate_on_submit := True, cl_people_id_data := ''smith-j'',
              family_name_data := ''Smith-Jones''\<rparr>"

text \<open>
  The dictionaries of the two submissions, written out: every attribute under its name,
  the blank ones included.
\<close>

definition smith1_dict :: "(string \<times> string) list" where
  "smith1_dict =
     [(''cl_people_id'', ''smith-j''), (''family_name'', ''Smith''), (''given_name'', ''Jane''),
      (''thesis_id'', ''''), (''authors_id'', ''''), (''archivesspace_id'', ''''),
      (''directory_id'', ''''), (''viaf'', ''''), (''lcnaf'', ''''), (''isni'', ''''),
      (''wikidata'', ''''), (''snac'', ''''), (''orcid'', ''''), (''image'', ''''),
      (''educated_at'', ''''), (''caltech'', ''''), (''jpl'', ''''), (''faculty'', ''''),
      (''alumn'', ''''), (''notes'', '''')]"

definition smith2_dict :: "(string \<times> string) list" where
  "smith2_dict =
     [(''cl_people_id'', ''smith-j''), (''family_name'', ''Smith-Jones''), (''given_name'', ''''),
      (''thesis_id'', ''''), (''authors_id'', ''''), (''archivesspace_id'', ''''),
      (''directory_id'', ''''), (''viaf'', ''''), (''lcnaf'', ''''), (''isni'', ''''),
      (''wikidata'', ''''), (''snac'', ''''), (''orcid'', ''''), (''image'', ''''),
      (''educated_at'', ''''), (''caltech'', ''''), (''jpl'', ''''), (''faculty'', ''''),
      (''alumn'', ''''), (''notes'', '''')]"

definition empty_key_form :: "string PeopleForm" where
  "empty_key_form = blank_form\<lparr>people_validate_on_submit := True\<rparr>"


definition wrong_password :: LoginForm where
  "wrong_password =
     \<lparr> login_validate_on_submit = True, username_data = ''jane'',
       password_data = ''sun'', remember_me_data = False \<rparr>"

definition right_password :: LoginForm where
  "right_password = wrong_password\<lparr>password_data := ''moon''\<rparr>"

definition nobody_login :: LoginForm where
  "nobody_login = wrong_password\<lparr>username_data := ''nobody''\<rparr>"

section \<open>Properties\<close>

subsection \<open>What each effect changes\<close>

lemma flash_simps:
  "store (flash m w) = store w"
  "session_user (flash m w) = session_user w"
  "session_remember (flash m w) = session_remember w"
  "flashes (flash m w) = flashes w @ [m]"
  "stdout (flash m w) = stdout w"
  "calls (flash m w) = calls w"
  by (simp_all add: flash_def)

lemma print_simps:
  "store (print m w) = store w"
  "session_user (print m w) = session_user w"
  "session_remember (print m w) = session_remember w"
  "flashes (print m w) = flashes w"
  "stdout (print m w) = stdout w @ [m]"
  "calls (print m w) = calls w"
  by (simp_all add: print_def)

lemma has_key_simps:
  "fst (has_key e c k w) = dataset_has_key e (store w) c k"
  "store (snd (has_key e c k w)) = store w"
  "session_user (snd (has_key e c k w)) = session_user w"
  "session_remember (snd (has_key e c k w)) = session_remember w"
  "flashes (snd (has_key e c k w)) = flashes w"
  "stdout (snd (has_key e c k w)) = stdout w"
  "calls (snd (has_key e c k w)) = calls w @ [Has_key c k]"
  by (simp_all add: has_key_def)

lemma create_simps:
  "fst (create e c k r w) = fst (dataset_create e (store w) c k r)"
  "store (snd (create e c k r w)) = snd (dataset_create e (store w) c k r)"
  "session_user (snd (create e c k r w)) = session_user w"
  "session_remember (snd (create e c k r w)) = session_remember w"
  "flashes (snd (create e c k r w)) = flashes w"
  "stdout (snd (create e c k r w)) = stdout w"
  "calls (snd (create e c k r w)) = calls w @ [Create c k r]"
  by (simp_all add: create_def split: prod.splits)

lemma update_simps:
  "fst (update e c k r w) = fst (dataset_update e (store w) c k r)"
  "store (snd (update e c k r w)) = snd (dataset_update e (store w) c k r)"
  "session_user (snd (update e c k r w)) = session_user w"
  "session_remember (snd (update e c k r w)) = session_remember w"
  "flashes (snd (update e c k r w)) = flashes w"
  "stdout (snd (update e c k r w)) = stdout w"
  "calls (snd (update e c k r w)) = calls w @ [Update c k r]"
  by (simp_all add: update_def split: prod.splits)

lemmas effect_simps = flash_simps print_simps has_key_simps create_simps update_simps

text \<open>
  The path of \<^verbatim>\<open>people\<close> for an authenticated user and a form that validates, with the
  tests on the session and on the form resolved.
\<close>

lemma people_authenticated:
  assumes "cu_is_authenticated (session_user w)" "people_validate_on_submit form"
  shows "people e form w =
    (let p = people_of_form form; c = OBJECTS e; k = cl_people_id_data form;
         w1 = snd (has_key e c k w)
     in if dataset_has_key e (store w) c k then
          (let r = update e c k (to_dict e p) w1;
               w3 = flash (if fst r \<noteq> ''''
                           then ''WARNING: failed to update {key} in {c_name}, {err}''
                           else ''{people.cl_people_id} updated'') (snd r)
           in (Render_template ''people.html'' ''People'' (session_user w) (People_form form),
               w3))
        else
          (let w2 = print (''DEBUG c_name '' @ c @ '', '' @ k @ '' -> '' @ People_str e p) w1;
               r = create e c k (to_dict e p) w2;
               w3 = flash (if fst r \<noteq> ''''
                           then ''WARNING: failed to create {key} in {c_name}, {err}''
                           else ''{people.cl_people_id} created'') (snd r)
           in (Render_template ''people.html'' ''People'' (session_user w) (People_form form),
               w3)))"
  using assms
  by (simp add: people_def Let_def effect_simps people_of_form_def split: prod.splits)
     (auto simp: has_key_def update_def create_def flash_def print_def split: prod.splits)

subsection \<open>The examples evaluated\<close>

lemmas mem_defs = mem_env_def mem_has_key_def mem_create_def mem_update_def is_space_def
  trim_space_def smith1_dict_def smith2_dict_def Let_def
  to_dict_all_def mem_User_def mem_hash_def mem_check_password_def store0_def anonymous0_def
  jane_def curator0_def no_collection0_def blank_form_def smith1_def smith2_def
  empty_key_form_def wrong_password_def right_password_def nobody_login_def field_def
  people_of_form_def


subsection \<open>The upsert of \<^verbatim>\<open>/people\<close>\<close>

text \<open>
  Claim C1. For an authenticated user and a form that validates, \<^verbatim>\<open>people\<close> calls
  \<^verbatim>\<open>has_key(OBJECTS, cl_people_id)\<close> exactly once, and then makes exactly one more
  dataset call, chosen by the answer alone: \<^verbatim>\<open>update\<close> if the key exists, \<^verbatim>\<open>create\<close>
  if it does not. In both branches the object written is \<^verbatim>\<open>to_dict()\<close> of the full
  mapped record: the \<^verbatim>\<open>People\<close> whose twenty attributes are the twenty fields of the
  form, each under its own name, whatever the store held. The store after the request
  is the one that this single write returns.
\<close>

theorem people_write_decided_by_has_key:
  fixes e :: "('s, 'v, 'd) env"
  defines "c \<equiv> OBJECTS e"
  assumes "cu_is_authenticated (session_user w)" and "people_validate_on_submit form"
  defines "k \<equiv> cl_people_id_data form"
    and "r \<equiv> to_dict e
           \<lparr> cl_people_id = cl_people_id_data form,
             family_name = family_name_data form,
             given_name = given_name_data form,
             thesis_id = thesis_id_data form,
             authors_id = authors_id_data form,
             archivesspace_id = archivesspace_id_data form,
             directory_id = directory_id_data form,
             viaf = viaf_data form,
             lcnaf = lcnaf_data form,
             isni = isni_data form,
             wikidata = wikidata_data form,
             snac = snac_data form,
             orcid = orcid_data form,
             image_p = image_data form,
             educated_at = educated_at_data form,
             caltech = caltech_data form,
             jpl = jpl_data form,
             faculty = faculty_data form,
             alumn = alumn_data form,
             notes_p = notes_data form \<rparr>"
  shows "calls (snd (people e form w)) =
           calls w @
           [Has_key c k,
            (if dataset_has_key e (store w) c k then Update c k r else Create c k r)]
         \<and> store (snd (people e form w)) =
             snd (if dataset_has_key e (store w) c k then dataset_update e (store w) c k r
                  else dataset_create e (store w) c k r)"
  unfolding c_def k_def r_def
  by (simp add: people_authenticated[OF assms(2,3)] Let_def effect_simps people_of_form_def)

theorem people_write_decided_by_has_key_witness:
  "cu_is_authenticated (session_user curator0) \<and> people_validate_on_submit smith1 \<and>
   \<not> dataset_has_key mem_env (store curator0) ''People.ds'' ''smith-j'' \<and>
   calls (snd (people mem_env smith1 curator0)) =
     [Has_key ''People.ds'' ''smith-j'', Create ''People.ds'' ''smith-j'' smith1_dict] \<and>
   store (snd (people mem_env smith1 curator0)) =
     store0(''People.ds'' \<mapsto> [''smith-j'' \<mapsto> smith1_dict])"
  using people_write_decided_by_has_key [where e = mem_env and w = curator0 and form = smith1]
  by (simp add: mem_defs)

text \<open>
  Claim C2. For an authenticated user and a form that validates, the response of
  \<^verbatim>\<open>people\<close> is the rendered view \<^verbatim>\<open>people.html\<close> with the same form, whatever
  \<^verbatim>\<open>create\<close> or \<^verbatim>\<open>update\<close> returns (no abort and no redirect); and when the write
  returns a non-empty error string, the one message flashed is the warning of that
  branch.
\<close>

theorem people_store_failure_still_renders:
  fixes e :: "('s, 'v, 'd) env"
  defines "c \<equiv> OBJECTS e"
  assumes "cu_is_authenticated (session_user w)" and "people_validate_on_submit form"
  defines "k \<equiv> cl_people_id_data form" and "r \<equiv> to_dict e (people_of_form form)"
  shows "fst (people e form w) =
           Render_template ''people.html'' ''People'' (session_user w) (People_form form)
         \<and> (dataset_has_key e (store w) c k \<and> fst (dataset_update e (store w) c k r) \<noteq> ''''
              \<longrightarrow> flashes (snd (people e form w)) =
                    flashes w @ [''WARNING: failed to update {key} in {c_name}, {err}''])
         \<and> (\<not> dataset_has_key e (store w) c k \<and> fst (dataset_create e (store w) c k r) \<noteq> ''''
              \<longrightarrow> flashes (snd (people e form w)) =
                    flashes w @ [''WARNING: failed to create {key} in {c_name}, {err}''])"
  unfolding c_def k_def r_def
  by (simp add: people_authenticated[OF assms(2,3)] Let_def effect_simps)

theorem people_store_failure_still_renders_witness:
  "cu_is_authenticated (session_user no_collection0) \<and> people_validate_on_submit smith1 \<and>
   \<not> dataset_has_key mem_env (store no_collection0) ''People.ds'' ''smith-j'' \<and>
   fst (dataset_create mem_env (store no_collection0) ''People.ds'' ''smith-j''
          (to_dict_all (people_of_form smith1))) = ''collection not found'' \<and>
   fst (people mem_env smith1 no_collection0) =
     Render_template ''people.html'' ''People'' (LoggedIn jane) (People_form smith1) \<and>
   flashes (snd (people mem_env smith1 no_collection0)) =
     [''WARNING: failed to create {key} in {c_name}, {err}'']"
  using people_store_failure_still_renders
          [where e = mem_env and w = no_collection0 and form = smith1]
  by (simp add: mem_defs)




text \<open>
  Claim C5. While \<^verbatim>\<open>current_user\<close> is not authenticated, \<^verbatim>\<open>people\<close> redirects to the
  login view, whatever the form holds. It makes no dataset call, leaves the store and
  the standard output as they were, and only flashes its message: the upsert does not
  run.
\<close>

theorem people_anonymous_redirects:
  assumes "\<not> cu_is_authenticated (session_user w)"
  shows "fst (people e form w) = Redirect ''login''
         \<and> calls (snd (people e form w)) = calls w
         \<and> store (snd (people e form w)) = store w
         \<and> stdout (snd (people e form w)) = stdout w
         \<and> snd (people e form w) = flash ''Must be logged in to curate objects'' w"
  using assms by (simp add: people_def flash_simps)

theorem people_anonymous_redirects_witness:
  "\<not> cu_is_authenticated (session_user anonymous0) \<and>
   people_validate_on_submit smith1 \<and>
   fst (people mem_env smith1 anonymous0) = Redirect ''login'' \<and>
   calls (snd (people mem_env smith1 anonymous0)) = [] \<and>
   store (snd (people mem_env smith1 anonymous0)) = store0"
  using people_anonymous_redirects [where w = anonymous0 and e = mem_env and form = smith1]
  by (simp add: mem_defs flash_def)



text \<open>
  Claim C9. For an authenticated user and a form that validates, \<^verbatim>\<open>people\<close> flashes
  exactly one message, and it is one of four fixed strings chosen by the branch and by
  whether the error is empty. The braces are part of the text: the message holds
  \<^verbatim>\<open>{key}\<close>, \<^verbatim>\<open>{c_name}\<close>, \<^verbatim>\<open>{err}\<close> or \<^verbatim>\<open>{people.cl_people_id}\<close> as written, never
  the key, the collection or the error.
\<close>

theorem people_flash_messages_literal:
  fixes e :: "('s, 'v, 'd) env"
  defines "c \<equiv> OBJECTS e"
  assumes "cu_is_authenticated (session_user w)" and "people_validate_on_submit form"
  defines "k \<equiv> cl_people_id_data form" and "r \<equiv> to_dict e (people_of_form form)"
  shows "flashes (snd (people e form w)) =
           flashes w @
           [if dataset_has_key e (store w) c k then
              (if fst (dataset_update e (store w) c k r) \<noteq> ''''
               then ''WARNING: failed to update {key} in {c_name}, {err}''
               else ''{people.cl_people_id} updated'')
            else
              (if fst (dataset_create e (store w) c k r) \<noteq> ''''
               then ''WARNING: failed to create {key} in {c_name}, {err}''
               else ''{people.cl_people_id} created'')]"
  unfolding c_def k_def r_def
  by (simp add: people_authenticated[OF assms(2,3)] Let_def effect_simps)

theorem people_flash_messages_literal_witness:
  "cu_is_authenticated (session_user curator0) \<and> people_validate_on_submit smith1 \<and>
   cl_people_id_data smith1 = ''smith-j'' \<and>
   flashes (snd (people mem_env smith1 curator0)) = [''{people.cl_people_id} created'']"
  using people_flash_messages_literal [where e = mem_env and w = curator0 and form = smith1]
  by (simp add: mem_defs)

subsection \<open>Login, logout and the user loader\<close>

text \<open>
  Claim C4. For a session that is not authenticated and a login form that validates,
  when \<^verbatim>\<open>check_password\<close> answers \<^verbatim>\<open>False\<close> for the submitted password, \<^verbatim>\<open>login\<close>
  aborts with 401 and binds no user: the session is as it was, and so still not
  authenticated.
\<close>

theorem login_bad_password_unauthorized:
  assumes "\<not> cu_is_authenticated (session_user w)"
    and "login_validate_on_submit form"
    and "fst (check_password e (User_init e (store w) (username_data form)) (password_data form))
           = False"
  shows "fst (login e form w) = Abort 401
         \<and> session_user (snd (login e form w)) = session_user w
         \<and> session_remember (snd (login e form w)) = session_remember w
         \<and> \<not> cu_is_authenticated (session_user (snd (login e form w)))"
  using assms
  by (cases "check_password e (User_init e (store w) (username_data form)) (password_data form)")
     (simp add: login_def Let_def flash_simps)

theorem login_bad_password_unauthorized_witness:
  "\<not> cu_is_authenticated (session_user anonymous0) \<and>
   login_validate_on_submit wrong_password \<and>
   fst (check_password mem_env
          (User_init mem_env (store anonymous0) (username_data wrong_password))
          (password_data wrong_password)) = False \<and>
   fst (login mem_env wrong_password anonymous0) = Abort 401 \<and>
   session_user (snd (login mem_env wrong_password anonymous0)) = AnonymousUser"
  using login_bad_password_unauthorized
          [where w = anonymous0 and form = wrong_password and e = mem_env]
  by (simp add: mem_defs)

text \<open>
  Claim C7. \<^verbatim>\<open>logout\<close> always redirects to the home view and leaves the session
  anonymous, with the store, the messages and the dataset calls untouched. It is
  idempotent: a second \<^verbatim>\<open>logout\<close> gives the same response and the same state as the
  first; and on a session already anonymous (no user, no remember flag) it changes
  nothing.
\<close>

theorem logout_idempotent:
  fixes w :: "('s, 'd) world" and res :: "'v response \<times> ('s, 'd) world"
  defines "res \<equiv> logout w"
  shows "fst res = Redirect ''index''
         \<and> session_user (snd res) = AnonymousUser
         \<and> \<not> cu_is_authenticated (session_user (snd res))
         \<and> store (snd res) = store w \<and> flashes (snd res) = flashes w
         \<and> calls (snd res) = calls w
         \<and> logout (snd res) = res
         \<and> (session_user w = AnonymousUser \<and> session_remember w = False \<longrightarrow> snd res = w)"
  unfolding res_def by (simp add: logout_def logout_user_def)

theorem logout_idempotent_witness:
  "session_user anonymous0 = AnonymousUser \<and> session_remember anonymous0 = False \<and>
   logout anonymous0 = (Redirect ''index'' :: string response, anonymous0) \<and>
   logout curator0 = (Redirect ''index'' :: string response, anonymous0) \<and>
   logout (snd (logout curator0 :: string response \<times> _)) =
     (Redirect ''index'' :: string response, anonymous0)"
  using logout_idempotent [where w = anonymous0 and 'v = string]
        logout_idempotent [where w = curator0 and 'v = string]
  by (simp add: mem_defs logout_def logout_user_def)

text \<open>
  Claim C8. For a user id that \<^verbatim>\<open>has_key\<close> does not find in the collection of users,
  \<^verbatim>\<open>load_user\<close> returns \<^verbatim>\<open>None\<close> as an ordinary result and leaves the store as it
  was; restoring a session that carries this id therefore ends anonymous.
\<close>

theorem load_user_missing_is_None:
  assumes "\<not> dataset_has_key e (store w) (USERS e) user_id"
  shows "fst (load_user e user_id w) = None
         \<and> store (snd (load_user e user_id w)) = store w
         \<and> session_user (restore_session e (Some user_id) w) = AnonymousUser
         \<and> \<not> cu_is_authenticated (session_user (restore_session e (Some user_id) w))"
  using assms
  by (simp add: restore_session_def load_user_def Let_def has_key_def flash_def)

theorem load_user_missing_is_None_witness:
  "\<not> dataset_has_key mem_env (store curator0) (USERS mem_env) ''nobody'' \<and>
   fst (load_user mem_env ''nobody'' curator0) = None \<and>
   session_user (restore_session mem_env (Some ''nobody'') curator0) = AnonymousUser"
  using load_user_missing_is_None [where e = mem_env and w = curator0 and user_id = "''nobody''"]
  by (simp add: mem_defs)

text \<open>
  Claim C10. For a session that is not authenticated and a login form that validates,
  \<^verbatim>\<open>login\<close> makes no dataset call of its own: it constructs \<^verbatim>\<open>User(username)\<close> from the
  submitted name and the response is decided by \<^verbatim>\<open>check_password\<close> on that instance
  alone, 401 when it answers \<^verbatim>\<open>False\<close> and the redirect to the home view otherwise.
  There is no third outcome for a name that is not found.
\<close>

theorem login_decided_by_check_password:
  fixes e :: "('s, 'v, 'd) env"
  assumes "\<not> cu_is_authenticated (session_user w)" and "login_validate_on_submit form"
  defines "u \<equiv> User_init e (store w) (username_data form)"
  shows "fst (login e form w) =
           (if fst (check_password e u (password_data form)) = False then Abort 401
            else Redirect ''index'')
         \<and> calls (snd (login e form w)) = calls w
         \<and> store (snd (login e form w)) = store w"
  using assms(1,2) unfolding u_def
  by (cases "check_password e (User_init e (store w) (username_data form)) (password_data form)")
     (simp add: login_def Let_def flash_simps login_user_def)

theorem login_decided_by_check_password_witness:
  "\<not> cu_is_authenticated (session_user anonymous0) \<and>
   login_validate_on_submit right_password \<and> login_validate_on_submit nobody_login \<and>
   fst (login mem_env right_password anonymous0) = Redirect ''index'' \<and>
   fst (login mem_env nobody_login anonymous0) = Abort 401 \<and>
   calls (snd (login mem_env right_password anonymous0)) = [] \<and>
   calls (snd (login mem_env nobody_login anonymous0)) = []"
  using login_decided_by_check_password
          [where e = mem_env and w = anonymous0 and form = right_password]
        login_decided_by_check_password
          [where e = mem_env and w = anonymous0 and form = nobody_login]
  by (simp add: mem_defs)

end
